theory Spec2Isabelle
  imports Main "HOL-Library.Sublist"
begin

section \<open>Python values used by the bot\<close>

text \<open>
  Exceptions are values. The bot distinguishes exactly one class, GitPython's
  \<^verbatim>\<open>GitCommandError\<close>, from every other subclass of \<^verbatim>\<open>Exception\<close>
  (\<^verbatim>\<open>TypeError\<close>, \<^verbatim>\<open>ValueError\<close>, \<^verbatim>\<open>OSError\<close>, ...), which is kept by
  its class name. A handler \<^verbatim>\<open>except Exception\<close> catches both constructors.
\<close>

datatype exn = GitCommandError string | OtherException string

fun is_git_command_error :: "exn \<Rightarrow> bool" where
  "is_git_command_error (GitCommandError m) = True"
| "is_git_command_error (OtherException c) = False"

fun exn_text :: "exn \<Rightarrow> string" where
  "exn_text (GitCommandError m) = m"
| "exn_text (OtherException c) = c"

text \<open>\<^verbatim>\<open>str(x)\<close> of an \<^verbatim>\<open>Optional[str]\<close>, as an f-string interpolates it.\<close>

fun py_str :: "string option \<Rightarrow> string" where
  "py_str None = ''None''"
| "py_str (Some s) = s"

text \<open>Truthiness of an \<^verbatim>\<open>Optional[str]\<close>: \<^verbatim>\<open>None\<close> and the empty string are false.\<close>

fun truthy :: "string option \<Rightarrow> bool" where
  "truthy None = False"
| "truthy (Some s) = (s \<noteq> [])"

definition nl :: char where
  "nl = CHR 0x0A"

section \<open>Calendar dates and \<^verbatim>\<open>strftime\<close>\<close>

text \<open>
  \<^verbatim>\<open>datetime.date\<close>: a year in 1..9999, a month in 1..12 and a day of that month.
  The ordinal and the weekday follow CPython's \<^verbatim>\<open>_ymd2ord\<close> and \<^verbatim>\<open>date.weekday\<close>.
\<close>

record date =
  year :: nat
  month :: nat
  day :: nat

definition is_leap :: "nat \<Rightarrow> bool" where
  "is_leap y = (y mod 4 = 0 \<and> (y mod 100 \<noteq> 0 \<or> y mod 400 = 0))"



definition days_before_year :: "nat \<Rightarrow> nat" where
  "days_before_year y =
     (let y1 = y - 1 in y1 * 365 + y1 div 4 - y1 div 100 + y1 div 400)"

definition days_before_month :: "nat \<Rightarrow> nat \<Rightarrow> nat" where
  "days_before_month y m =
     [0, 0, 31, 59, 90, 120, 151, 181, 212, 243, 273, 304, 334] ! m
       + (if 2 < m \<and> is_leap y then 1 else 0)"

definition toordinal :: "date \<Rightarrow> nat" where
  "toordinal d = days_before_year (year d) + days_before_month (year d) (month d) + day d"

definition weekday :: "date \<Rightarrow> nat" where
  "weekday d = (toordinal d + 6) mod 7"

definition day_names :: "string list" where
  "day_names = [''Monday'', ''Tuesday'', ''Wednesday'', ''Thursday'', ''Friday'',
                ''Saturday'', ''Sunday'']"

definition month_names :: "string list" where
  "month_names = [''January'', ''February'', ''March'', ''April'', ''May'', ''June'',
                  ''July'', ''August'', ''September'', ''October'', ''November'',
                  ''December'']"

definition digit_char :: "nat \<Rightarrow> char" where
  "digit_char n = ''0123456789'' ! n"

fun str_nat :: "nat \<Rightarrow> string" where
  "str_nat n = (if n < 10 then [digit_char n] else str_nat (n div 10) @ [digit_char (n mod 10)])"

declare str_nat.simps [simp del]

definition zfill :: "nat \<Rightarrow> string \<Rightarrow> string" where
  "zfill w s = replicate (w - length s) CHR ''0'' @ s"

text \<open>
  One conversion specification of \<^verbatim>\<open>strftime\<close> in the C locale, which Python runs in
  unless the program calls \<^verbatim>\<open>setlocale\<close> (this one does not). \<^verbatim>\<open>%Y\<close> is the year
  with century, four digits wide as the Python documentation gives it; \<^verbatim>\<open>%m\<close> and
  \<^verbatim>\<open>%d\<close> are two digits wide. A character that is no directive of the bot's two
  format strings is copied with its percent sign.
\<close>

definition directive :: "date \<Rightarrow> char \<Rightarrow> string" where
  "directive d f =
     (if f = CHR ''Y'' then zfill 4 (str_nat (year d))
      else if f = CHR ''m'' then zfill 2 (str_nat (month d))
      else if f = CHR ''d'' then zfill 2 (str_nat (day d))
      else if f = CHR ''A'' then day_names ! weekday d
      else if f = CHR ''B'' then month_names ! (month d - 1)
      else if f = CHR ''%'' then ''%''
      else [CHR ''%'', f])"

fun strftime :: "date \<Rightarrow> string \<Rightarrow> string" where
  "strftime d [] = []"
| "strftime d [c] = [c]"
| "strftime d (c # f # rest) =
     (if c = CHR ''%'' then directive d f @ strftime d rest
      else c # strftime d (f # rest))"

section \<open>utils.py: naming conventions\<close>

text \<open>
  \<^verbatim>\<open>d = d or date.today()\<close>: a date object is always true, so only \<^verbatim>\<open>None\<close>
  selects today's date, which is an input of the model.
\<close>

definition iso_date_string :: "date \<Rightarrow> date option \<Rightarrow> string" where
  "iso_date_string today d =
     strftime (case d of None \<Rightarrow> today | Some x \<Rightarrow> x) ''%Y%m%d''"

definition branch_name_for_date :: "date \<Rightarrow> date option \<Rightarrow> string" where
  "branch_name_for_date today d = ''feature/news-'' @ iso_date_string today d"

definition digest_filename_for_date :: "date \<Rightarrow> date option \<Rightarrow> string" where
  "digest_filename_for_date today d = ''digest_'' @ iso_date_string today d @ ''.md''"


section \<open>config.py\<close>

definition py_isspace :: "char \<Rightarrow> bool" where
  "py_isspace c = (c \<in> set [CHR 0x09, CHR 0x0A, CHR 0x0B, CHR 0x0C, CHR 0x0D,
                              CHR 0x1C, CHR 0x1D, CHR 0x1E, CHR 0x1F, CHR 0x20])"

definition py_strip :: "string \<Rightarrow> string" where
  "py_strip s = rev (dropWhile py_isspace (rev (dropWhile py_isspace s)))"

definition py_lower_char :: "char \<Rightarrow> char" where
  "py_lower_char c =
     (let n = (of_char c :: nat) in if 65 \<le> n \<and> n \<le> 90 then char_of (n + 32) else c)"

definition py_lower :: "string \<Rightarrow> string" where
  "py_lower s = map py_lower_char s"

type_synonym environ = "string \<Rightarrow> string option"

definition get_bool_env :: "environ \<Rightarrow> string \<Rightarrow> bool \<Rightarrow> bool" where
  "get_bool_env env var_name dflt =
     (case env var_name of
        None \<Rightarrow> dflt
      | Some v \<Rightarrow> py_lower (py_strip v) = ''true'')"

record config =
  repo_owner_alt :: "string option"
  repo_name_alt :: "string option"
  repo_url_alt :: "string option"
  fork_path :: "string option"
  remote_upstream :: "string option"
  news_dir :: "string option"
  enable_log_branch :: bool
  log_branch :: "string option"
  approved_user :: "string option"

definition build_repo_url :: "string option \<Rightarrow> string option \<Rightarrow> string option" where
  "build_repo_url owner name =
     (if truthy owner \<and> truthy name
      then Some (''https://github.com/'' @ py_str owner @ ''/'' @ py_str name @ ''.git'')
      else None)"

definition Config :: "environ \<Rightarrow> config" where
  "Config env =
     \<lparr>repo_owner_alt = env ''REPO_OWNER_ALT'',
      repo_name_alt = env ''REPO_NAME_ALT'',
      repo_url_alt = build_repo_url (env ''REPO_OWNER_ALT'') (env ''REPO_NAME_ALT''),
      fork_path = env ''FORK_PATH'',
      remote_upstream = env ''REMOTE_UPSTREAM'',
      news_dir = env ''NEWS_DIR'',
      enable_log_branch = get_bool_env env ''ENABLE_LOG_BRANCH'' False,
      log_branch = env ''LOG_BRANCH'',
      approved_user = env ''APPROVED_USER''\<rparr>"

section \<open>content_generator.py\<close>

definition headlines :: "string list" where
  "headlines =
     [''Quantum progress: stable qubits announced.'',
      ''Python 4.0: rumors about stricter typing.'',
      ''GitHub Copilot improves unit test generation.'',
      ''Generative AI is reshaping UI/UX design.'']"

text \<open>
  \<^verbatim>\<open>random.choice(seq)\<close> returns \<^verbatim>\<open>seq[_randbelow(len(seq))]\<close>. The random source is
  an arbitrary natural number \<open>rnd\<close>, reduced modulo the length: every index below the
  length is possible and no other.
\<close>

definition random_choice :: "nat \<Rightarrow> 'a list \<Rightarrow> 'a" where
  "random_choice rnd xs = xs ! (rnd mod length xs)"

definition build_content :: "nat \<Rightarrow> date \<Rightarrow> string" where
  "build_content rnd d =
     (let date_str = strftime d ''%A, %B %d, %Y'';
          chosen_headline = random_choice rnd headlines
      in ''# Daily Tech Digest - '' @ date_str @ [nl, nl] @
         ''## '' @ chosen_headline @ [nl, nl] @
         ''This digest explores how automation is reshaping developer '' @
         ''workflows: from CI to automated PR approvals. This repository '' @
         ''demonstrates an automated content pipeline.'' @ [nl, nl] @
         ''---'' @ [nl, nl] @
         ''Generated automatically by the daily contributor bot.'')"


definition long_date :: "date \<Rightarrow> string" where
  "long_date d =
     day_names ! weekday d @ '', '' @ month_names ! (month d - 1) @ '' '' @
     [digit_char (day d div 10 mod 10), digit_char (day d mod 10)] @ '', '' @
     [digit_char (year d div 1000 mod 10), digit_char (year d div 100 mod 10),
      digit_char (year d div 10 mod 10), digit_char (year d mod 10)]"

section \<open>Paths and the file system\<close>

text \<open>
  A \<^verbatim>\<open>pathlib\<close> path is the list of its parts; an absolute path has the root \<^verbatim>\<open>/\<close>
  as its first part, and the empty list is the current directory. The file system maps a
  path to a file with its content or to a directory. Paths are compared by their parts:
  there are no links, and the two roots always exist as directories.
\<close>

type_synonym path = "string list"

datatype node = File string | Dir

type_synonym fs = "path \<Rightarrow> node option"

fun split_on :: "char \<Rightarrow> string \<Rightarrow> string list" where
  "split_on c [] = [[]]"
| "split_on c (x # xs) =
     (if x = c then [] # split_on c xs
      else (case split_on c xs of [] \<Rightarrow> [[x]] | y # ys \<Rightarrow> (x # y) # ys))"

text \<open>\<^verbatim>\<open>Path(s)\<close>: empty parts and \<^verbatim>\<open>.\<close> parts are dropped.\<close>

definition Path_of :: "string \<Rightarrow> path" where
  "Path_of s =
     (if s \<noteq> [] \<and> hd s = CHR ''/'' then [''/''] else []) @
     filter (\<lambda>p. p \<noteq> [] \<and> p \<noteq> ''.'') (split_on CHR ''/'' s)"

definition is_root :: "path \<Rightarrow> bool" where
  "is_root p = (p = [] \<or> p = [''/''])"

definition node_at :: "fs \<Rightarrow> path \<Rightarrow> node option" where
  "node_at f p = (if is_root p then Some Dir else f p)"

definition parent :: "path \<Rightarrow> path" where
  "parent p = (if is_root p then p else butlast p)"

definition name :: "path \<Rightarrow> string" where
  "name p = (if is_root p then [] else last p)"

text \<open>\<^verbatim>\<open>str.rfind\<close> of a character: the index of its last occurrence.\<close>

fun rfind :: "char \<Rightarrow> string \<Rightarrow> nat option" where
  "rfind c [] = None"
| "rfind c (x # xs) =
     (case rfind c xs of
        Some i \<Rightarrow> Some (Suc i)
      | None \<Rightarrow> (if x = c then Some 0 else None))"

text \<open>\<^verbatim>\<open>PurePath.suffix\<close>: from the last dot of the name, unless it is first or last.\<close>

definition suffix_of :: "path \<Rightarrow> string" where
  "suffix_of p =
     (case rfind CHR ''.'' (name p) of
        None \<Rightarrow> []
      | Some i \<Rightarrow> (if 0 < i \<and> i < length (name p) - 1 then drop i (name p) else []))"

text \<open>
  \<^verbatim>\<open>PurePath.with_suffix\<close>: a suffix with a separator, without a leading dot or equal
  to a single dot is refused, and so is a path with an empty name.
\<close>

definition with_suffix :: "path \<Rightarrow> string \<Rightarrow> exn + path" where
  "with_suffix p suf =
     (if CHR ''/'' \<in> set suf \<or> (suf \<noteq> [] \<and> hd suf \<noteq> CHR ''.'') \<or> suf = ''.''
      then Inl (OtherException ''ValueError'')
      else if name p = [] then Inl (OtherException ''ValueError'')
      else (let old_suffix = suffix_of p;
                nm = (if old_suffix = [] then name p @ suf
                      else take (length (name p) - length old_suffix) (name p) @ suf)
            in Inr (butlast p @ [nm])))"

text \<open>
  The system calls that the bot's file operations make, one atomic step each. A write
  is split into single characters, the finest grain at which an interruption can leave
  the file. \<open>Raise\<close> is the step of a Python-level exception.
\<close>

datatype fs_action =
    Mkdir path
  | OpenW path
  | Write path char
  | Replace path path
  | Raise exn

fun fs_apply :: "fs_action \<Rightarrow> fs \<Rightarrow> exn + fs" where
  "fs_apply (Mkdir d) f =
     (case node_at f d of
        Some Dir \<Rightarrow> Inr f
      | Some (File c) \<Rightarrow> Inl (OtherException ''FileExistsError'')
      | None \<Rightarrow>
          (case node_at f (parent d) of
             Some Dir \<Rightarrow> Inr (f(d \<mapsto> Dir))
           | Some (File c) \<Rightarrow> Inl (OtherException ''NotADirectoryError'')
           | None \<Rightarrow> Inl (OtherException ''FileNotFoundError'')))"
| "fs_apply (OpenW p) f =
     (case node_at f p of
        Some Dir \<Rightarrow> Inl (OtherException ''IsADirectoryError'')
      | _ \<Rightarrow>
          (case node_at f (parent p) of
             Some Dir \<Rightarrow> Inr (f(p \<mapsto> File []))
           | Some (File c) \<Rightarrow> Inl (OtherException ''NotADirectoryError'')
           | None \<Rightarrow> Inl (OtherException ''FileNotFoundError'')))"
| "fs_apply (Write p c) f =
     (case node_at f p of
        Some (File s) \<Rightarrow> Inr (f(p \<mapsto> File (s @ [c])))
      | _ \<Rightarrow> Inl (OtherException ''OSError''))"
| "fs_apply (Replace a b) f =
     (case node_at f a of
        Some (File s) \<Rightarrow>
          (if a = b then Inr f
           else (case node_at f b of
                   Some Dir \<Rightarrow> Inl (OtherException ''IsADirectoryError'')
                 | _ \<Rightarrow> Inr ((f(b \<mapsto> File s))(a := None))))
      | Some Dir \<Rightarrow> Inl (OtherException ''OSError'')
      | None \<Rightarrow> Inl (OtherException ''FileNotFoundError''))"
| "fs_apply (Raise e) f = Inl e"

text \<open>
  Running a list of steps stops at the first exception and keeps the file system as the
  steps before it left it. \<open>fault\<close> is the environment: it may make any step fail
  (permissions, a full disk) before the step changes anything.
\<close>

fun run_fs :: "(fs_action \<Rightarrow> fs \<Rightarrow> exn option) \<Rightarrow> fs_action list \<Rightarrow> fs \<Rightarrow> exn option \<times> fs" where
  "run_fs fault [] f = (None, f)"
| "run_fs fault (a # as) f =
     (case fault a f of
        Some e \<Rightarrow> (Some e, f)
      | None \<Rightarrow>
          (case fs_apply a f of
             Inl e \<Rightarrow> (Some e, f)
           | Inr f' \<Rightarrow> run_fs fault as f'))"

section \<open>utils.py: file handling\<close>

text \<open>
  \<^verbatim>\<open>Path(path).mkdir(parents=True, exist_ok=True)\<close> creates the missing ancestors from
  the top and then the directory itself; a directory that exists is left alone.
\<close>

definition ensure_dir_actions :: "path \<Rightarrow> fs_action list" where
  "ensure_dir_actions d = map (\<lambda>k. Mkdir (take k d)) [1..<Suc (length d)]"

definition ensure_dir :: "(fs_action \<Rightarrow> fs \<Rightarrow> exn option) \<Rightarrow> path \<Rightarrow> fs \<Rightarrow> exn option \<times> fs" where
  "ensure_dir fault d f = run_fs fault (ensure_dir_actions d) f"

text \<open>
  \<^verbatim>\<open>write_text_file\<close>: the directories, then the temporary path, then open, write and
  close the temporary file, then rename it onto the target.
\<close>

definition write_text_file_actions :: "path \<Rightarrow> string \<Rightarrow> fs_action list" where
  "write_text_file_actions p content =
     ensure_dir_actions (parent p) @
     (case with_suffix p (suffix_of p @ ''.tmp'') of
        Inl e \<Rightarrow> [Raise e]
      | Inr tmp_path \<Rightarrow> OpenW tmp_path # map (Write tmp_path) content @ [Replace tmp_path p])"

definition write_text_file ::
  "(fs_action \<Rightarrow> fs \<Rightarrow> exn option) \<Rightarrow> path \<Rightarrow> string \<Rightarrow> fs \<Rightarrow> exn option \<times> fs" where
  "write_text_file fault p content f = run_fs fault (write_text_file_actions p content) f"

text \<open>A write that is interrupted after \<open>n\<close> steps has run the first \<open>n\<close> steps only.\<close>

definition write_text_file_interrupted ::
  "(fs_action \<Rightarrow> fs \<Rightarrow> exn option) \<Rightarrow> nat \<Rightarrow> path \<Rightarrow> string \<Rightarrow> fs \<Rightarrow> exn option \<times> fs" where
  "write_text_file_interrupted fault n p content f =
     run_fs fault (take n (write_text_file_actions p content)) f"

definition write_branch_name_file ::
  "(fs_action \<Rightarrow> fs \<Rightarrow> exn option) \<Rightarrow> path \<Rightarrow> string \<Rightarrow> fs \<Rightarrow> exn option \<times> fs" where
  "write_branch_name_file fault repo_root branch_name f =
     write_text_file fault (repo_root @ [''branch_name.txt'']) branch_name f"

text \<open>The paths whose entry a step may change.\<close>

fun touches :: "fs_action \<Rightarrow> path \<Rightarrow> bool" where
  "touches (Mkdir d) q = (d = q)"
| "touches (OpenW p) q = (p = q)"
| "touches (Write p c) q = (p = q)"
| "touches (Replace a b) q = (a = q \<or> b = q)"
| "touches (Raise e) q = False"

section \<open>The repository, the log and the environment\<close>

text \<open>
  The state that a run reads and changes: the repository as GitPython shows it (remotes,
  local branches, the other references by their short names such as \<^verbatim>\<open>upstream/main\<close>,
  the branch that is checked out and its commit, the staged paths, the commits made and
  what was pushed), the files, the calls made to the logger and the git commands
  attempted, in order. Commits are natural numbers. The working tree that git itself
  rewrites on a checkout is not modelled.
\<close>

datatype level = DEBUG | INFO | WARNING | ERROR

datatype git_op =
    RepoOpen "string option"
  | CreateRemote "string option" "string option"
  | Fetch string
  | Checkout string
  | CheckoutNew string string
  | CreateHead "string option"
  | Pull "string option" string
  | IndexAdd string
  | IndexCommit string
  | Push string "string option"

record bot_state =
  remotes :: "(string \<times> string) list"
  heads :: "(string \<times> nat) list"
  other_refs :: "(string \<times> nat) list"
  active_branch :: "string option"
  head_commit :: nat
  staged :: "string list"
  commits :: "(nat \<times> string) list"
  pushed :: "(string \<times> string \<times> nat) list"
  files :: fs
  logged :: "(level \<times> string) list"
  ops :: "git_op list"

text \<open>
  Everything the bot does not decide: which git command fails and with which exception
  (the network, the remote, the work tree), what a fetch, a pull and a commit produce,
  which file-system step fails, \<^verbatim>\<open>os.path.relpath\<close>, the work tree's directory, the
  current directory, today's date, the random draw and the clock.
\<close>

record world =
  git_fault :: "git_op \<Rightarrow> bot_state \<Rightarrow> exn option"
  fetch_result :: "string \<Rightarrow> bot_state \<Rightarrow> (string \<times> nat) list"
  pull_result :: "bot_state \<Rightarrow> nat"
  commit_result :: "bot_state \<Rightarrow> nat"
  fs_fault :: "fs_action \<Rightarrow> fs \<Rightarrow> exn option"
  relpath :: "string \<Rightarrow> string \<Rightarrow> exn + string"
  working_tree_dir :: string
  getcwd :: string
  date_today :: date
  random_draw :: nat
  utcnow :: string

text \<open>
  A statement returns a value or raises, and leaves a state either way: what was done
  before an exception stays done.
\<close>

type_synonym 'a result = "(exn + 'a) \<times> bot_state"

definition ret :: "'a \<Rightarrow> bot_state \<Rightarrow> 'a result" where
  "ret x s = (Inr x, s)"

definition raise :: "exn \<Rightarrow> bot_state \<Rightarrow> 'a result" where
  "raise e s = (Inl e, s)"

definition lift :: "exn + 'a \<Rightarrow> bot_state \<Rightarrow> 'a result" where
  "lift x s = (x, s)"

definition and_then ::
  "(bot_state \<Rightarrow> 'a result) \<Rightarrow> ('a \<Rightarrow> bot_state \<Rightarrow> 'b result) \<Rightarrow> bot_state \<Rightarrow> 'b result" where
  "and_then m k s = (case m s of (Inl e, s') \<Rightarrow> (Inl e, s') | (Inr x, s') \<Rightarrow> k x s')"

text \<open>\<^verbatim>\<open>try: m except Exception as e: h(e)\<close> and \<^verbatim>\<open>try: m except GitCommandError as e: h(e)\<close>.\<close>

definition on_error ::
  "(bot_state \<Rightarrow> 'a result) \<Rightarrow> (exn \<Rightarrow> bot_state \<Rightarrow> 'a result) \<Rightarrow> bot_state \<Rightarrow> 'a result" where
  "on_error m h s = (case m s of (Inl e, s') \<Rightarrow> h e s' | (Inr x, s') \<Rightarrow> (Inr x, s'))"

definition on_git_error ::
  "(bot_state \<Rightarrow> 'a result) \<Rightarrow> (exn \<Rightarrow> bot_state \<Rightarrow> 'a result) \<Rightarrow> bot_state \<Rightarrow> 'a result" where
  "on_git_error m h s =
     (case m s of
        (Inl e, s') \<Rightarrow> (if is_git_command_error e then h e s' else (Inl e, s'))
      | (Inr x, s') \<Rightarrow> (Inr x, s'))"

definition logm :: "level \<Rightarrow> string \<Rightarrow> bot_state \<Rightarrow> unit result" where
  "logm lvl msg s = (Inr (), s\<lparr>logged := logged s @ [(lvl, msg)]\<rparr>)"

definition fs_call :: "(fs \<Rightarrow> exn option \<times> fs) \<Rightarrow> bot_state \<Rightarrow> unit result" where
  "fs_call g s =
     (case g (files s) of
        (Some e, f') \<Rightarrow> (Inl e, s\<lparr>files := f'\<rparr>)
      | (None, f') \<Rightarrow> (Inr (), s\<lparr>files := f'\<rparr>))"

definition quoted :: "string \<Rightarrow> string" where
  "quoted s = CHR 0x27 # s @ [CHR 0x27]"

text \<open>\<^verbatim>\<open>posixpath.join\<close> and \<^verbatim>\<open>posixpath.basename\<close>; \<^verbatim>\<open>join\<close> raises TypeError on None.\<close>

definition os_path_join :: "string \<Rightarrow> string \<Rightarrow> string" where
  "os_path_join a b =
     (if b \<noteq> [] \<and> hd b = CHR ''/'' then b
      else if a = [] \<or> last a = CHR ''/'' then a @ b
      else a @ ''/'' @ b)"

definition os_path_join_opt :: "string option \<Rightarrow> string option \<Rightarrow> exn + string" where
  "os_path_join_opt a b =
     (case (a, b) of
        (Some x, Some y) \<Rightarrow> Inr (os_path_join x y)
      | _ \<Rightarrow> Inl (OtherException ''TypeError''))"

definition basename :: "string \<Rightarrow> string" where
  "basename p = last (split_on CHR ''/'' p)"

section \<open>What the git commands do\<close>

definition refs :: "bot_state \<Rightarrow> (string \<times> nat) list" where
  "refs s = heads s @ other_refs s"

definition advance_head :: "nat \<Rightarrow> bot_state \<Rightarrow> bot_state" where
  "advance_head c s =
     s\<lparr>head_commit := c,
       heads := map (\<lambda>(n, x). if Some n = active_branch s then (n, c) else (n, x)) (heads s)\<rparr>"

text \<open>
  The effect of a command that the environment lets through. GitPython's
  \<^verbatim>\<open>Remote.create\<close> normalises the URL with \<^verbatim>\<open>os.path.expandvars\<close>, which raises
  TypeError on None before any git command runs. \<^verbatim>\<open>create_head\<close> refuses a name that
  exists at another commit. A checkout needs the branch, \<^verbatim>\<open>checkout -b\<close> a new name
  and a start point that resolves, a push a source branch.
\<close>

fun git_effect :: "world \<Rightarrow> git_op \<Rightarrow> bot_state \<Rightarrow> exn + bot_state" where
  "git_effect w (RepoOpen p) s = Inr s"
| "git_effect w (CreateRemote n u) s =
     (case u of
        None \<Rightarrow> Inl (OtherException ''TypeError'')
      | Some url \<Rightarrow> Inr (s\<lparr>remotes := remotes s @ [(py_str n, url)]\<rparr>))"
| "git_effect w (Fetch r) s = Inr (s\<lparr>other_refs := fetch_result w r s\<rparr>)"
| "git_effect w (Checkout b) s =
     (case map_of (heads s) b of
        None \<Rightarrow> Inl (GitCommandError ''pathspec did not match'')
      | Some c \<Rightarrow> Inr (s\<lparr>active_branch := Some b, head_commit := c\<rparr>))"
| "git_effect w (CheckoutNew b start) s =
     (if b \<in> set (map fst (heads s)) then Inl (GitCommandError ''branch already exists'')
      else (case map_of (refs s) start of
              None \<Rightarrow> Inl (GitCommandError ''not a commit'')
            | Some c \<Rightarrow>
                Inr (s\<lparr>heads := heads s @ [(b, c)], active_branch := Some b,
                       head_commit := c\<rparr>)))"
| "git_effect w (CreateHead n) s =
     (case map_of (heads s) (py_str n) of
        None \<Rightarrow> Inr (s\<lparr>heads := heads s @ [(py_str n, head_commit s)]\<rparr>)
      | Some c \<Rightarrow> (if c = head_commit s then Inr s else Inl (OtherException ''OSError'')))"
| "git_effect w (Pull r b) s = Inr (advance_head (pull_result w s) s)"
| "git_effect w (IndexAdd p) s = Inr (s\<lparr>staged := staged s @ [p]\<rparr>)"
| "git_effect w (IndexCommit m) s =
     Inr (advance_head (commit_result w s) (s\<lparr>commits := commits s @ [(commit_result w s, m)]\<rparr>))"
| "git_effect w (Push r b) s =
     (case map_of (heads s) (py_str b) of
        None \<Rightarrow> Inl (GitCommandError ''src refspec does not match any'')
      | Some c \<Rightarrow> Inr (s\<lparr>pushed := pushed s @ [(r, py_str b, c)]\<rparr>))"

text \<open>One call into GitPython: the attempt is recorded, then the command fails or acts.\<close>

definition git :: "world \<Rightarrow> git_op \<Rightarrow> bot_state \<Rightarrow> unit result" where
  "git w op s =
     (let s1 = s\<lparr>ops := ops s @ [op]\<rparr>
      in case git_fault w op s of
           Some e \<Rightarrow> (Inl e, s1)
         | None \<Rightarrow> (case git_effect w op s1 of Inl e \<Rightarrow> (Inl e, s1) | Inr s2 \<Rightarrow> (Inr (), s2)))"

text \<open>\<^verbatim>\<open>Repo.remote(name)\<close> raises ValueError when no remote has the name.\<close>

definition repo_remote :: "string \<Rightarrow> bot_state \<Rightarrow> string result" where
  "repo_remote n s =
     (if n \<in> set (map fst (remotes s)) then (Inr n, s)
      else (Inl (OtherException ''ValueError''), s))"

section \<open>git_operations.py\<close>

definition git_manager_init :: "world \<Rightarrow> config \<Rightarrow> bot_state \<Rightarrow> unit result" where
  "git_manager_init w c =
     on_error (git w (RepoOpen (fork_path c)))
       (\<lambda>e. if e = OtherException ''InvalidGitRepositoryError''
            then and_then (logm ERROR (''Invalid Git repository at '' @ py_str (fork_path c)))
                   (\<lambda>_. raise e)
            else raise e)"

definition get_remote :: "string option \<Rightarrow> bot_state \<Rightarrow> (string \<times> string) option" where
  "get_remote n s = find (\<lambda>r. Some (fst r) = n) (remotes s)"

definition in_heads :: "string option \<Rightarrow> bot_state \<Rightarrow> bool" where
  "in_heads n s = (case n of None \<Rightarrow> False | Some b \<Rightarrow> b \<in> set (map fst (heads s)))"

definition checkout_or_create_branch :: "world \<Rightarrow> string option \<Rightarrow> bot_state \<Rightarrow> unit result" where
  "checkout_or_create_branch w n s =
     (if in_heads n s
      then and_then (git w (Checkout (py_str n)))
             (\<lambda>_. logm DEBUG (''Checked out existing branch '' @ py_str n)) s
      else and_then (git w (CreateHead n))
             (\<lambda>_. and_then (git w (Checkout (py_str n)))
                (\<lambda>_. logm DEBUG (''Created and checked out new branch '' @ py_str n))) s)"

text \<open>The upstream remote of \<^verbatim>\<open>sync_with_upstream\<close>: looked up, or created.\<close>

definition sync_ensure_upstream :: "world \<Rightarrow> config \<Rightarrow> bot_state \<Rightarrow> string result" where
  "sync_ensure_upstream w c s =
     (case get_remote (remote_upstream c) s of
        Some r \<Rightarrow> (Inr (fst r), s)
      | None \<Rightarrow>
          and_then (git w (CreateRemote (remote_upstream c) (repo_url_alt c)))
            (\<lambda>_. and_then
               (logm INFO (''Added upstream remote '' @ py_str (remote_upstream c) @ '' -> '' @
                           py_str (repo_url_alt c)))
               (\<lambda>_. ret (py_str (remote_upstream c)))) s)"

text \<open>The three-way choice of the main branch in \<^verbatim>\<open>sync_with_upstream\<close>.\<close>

definition sync_resolve_mainline :: "world \<Rightarrow> config \<Rightarrow> bot_state \<Rightarrow> unit result" where
  "sync_resolve_mainline w c s =
     (if ''main'' \<in> set (map fst (heads s)) then git w (Checkout ''main'') s
      else if py_str (remote_upstream c) @ ''/main'' \<in> set (map fst (refs s))
      then git w (CheckoutNew ''main'' (py_str (remote_upstream c) @ ''/main'')) s
      else and_then (git w (CreateHead (Some ''main'')))
             (\<lambda>_. and_then (git w (Checkout ''main''))
                (\<lambda>_. logm WARNING
                   (''Created '' @ quoted ''main'' @ '' from current HEAD; upstream '' @
                    quoted ''main'' @ '' not found.''))) s)"

definition sync_try :: "world \<Rightarrow> config \<Rightarrow> bot_state \<Rightarrow> unit result" where
  "sync_try w c =
     and_then (sync_ensure_upstream w c)
       (\<lambda>upstream. and_then (git w (Fetch upstream))
          (\<lambda>_. and_then (sync_resolve_mainline w c)
             (\<lambda>_. and_then (git w (Pull (remote_upstream c) ''main''))
                (\<lambda>_. logm INFO ''Synchronized fork with upstream/main.''))))"

definition sync_with_upstream :: "world \<Rightarrow> config \<Rightarrow> bot_state \<Rightarrow> unit result" where
  "sync_with_upstream w c =
     on_git_error (sync_try w c)
       (\<lambda>e. logm WARNING (''Could not fully sync with upstream: '' @ exn_text e))"

definition publish_try :: "world \<Rightarrow> string \<Rightarrow> string \<Rightarrow> string \<Rightarrow> bot_state \<Rightarrow> unit result" where
  "publish_try w branch_name file_path commit_message =
     and_then (checkout_or_create_branch w (Some branch_name))
       (\<lambda>_. and_then (lift (relpath w file_path (working_tree_dir w)))
          (\<lambda>rel. and_then (git w (IndexAdd rel))
             (\<lambda>_. and_then (git w (IndexCommit commit_message))
                (\<lambda>_. and_then (repo_remote ''origin'')
                   (\<lambda>origin. and_then (git w (Push origin (Some branch_name)))
                      (\<lambda>_. logm INFO (''Pushed branch '' @ branch_name @ '' to origin'')))))))"

text \<open>\<^verbatim>\<open>commit_message or f"feat: add {os.path.basename(file_path)}"\<close>.\<close>

definition message_or_default :: "string \<Rightarrow> string option \<Rightarrow> string" where
  "message_or_default file_path commit_message =
     (if truthy commit_message then py_str commit_message
      else ''feat: add '' @ basename file_path)"

definition commit_and_push ::
  "world \<Rightarrow> string \<Rightarrow> string \<Rightarrow> string option \<Rightarrow> bot_state \<Rightarrow> unit result" where
  "commit_and_push w branch_name file_path commit_message =
     on_git_error
       (publish_try w branch_name file_path (message_or_default file_path commit_message))
       (\<lambda>e. and_then (logm ERROR (''Git operation failed: '' @ exn_text e)) (\<lambda>_. raise e))"

definition logs_try :: "world \<Rightarrow> config \<Rightarrow> bot_state \<Rightarrow> unit result" where
  "logs_try w c =
     and_then (checkout_or_create_branch w (log_branch c))
       (\<lambda>_ s.
          if node_at (files s) (Path_of (os_path_join (getcwd w) ''logs'')) = None
          then logm INFO ''No logs to push.'' s
          else and_then (lift (relpath w (os_path_join (getcwd w) ''logs'') (working_tree_dir w)))
                 (\<lambda>rel. and_then (git w (IndexAdd rel))
                    (\<lambda>_. and_then (git w (IndexCommit (''chore: update logs '' @ utcnow w)))
                       (\<lambda>_. and_then (repo_remote ''origin'')
                          (\<lambda>origin. and_then (git w (Push origin (log_branch c)))
                             (\<lambda>_. logm INFO
                                (''Logs pushed to branch '' @ py_str (log_branch c))))))) s)"

definition push_logs_to_branch :: "world \<Rightarrow> config \<Rightarrow> bot_state \<Rightarrow> unit result" where
  "push_logs_to_branch w c =
     on_error (logs_try w c)
       (\<lambda>e. logm WARNING (''Could not push logs branch: '' @ exn_text e))"

section \<open>content_generator.py: writing the digest\<close>

definition generate_daily_content ::
  "world \<Rightarrow> config \<Rightarrow> date option \<Rightarrow> bot_state \<Rightarrow> (string \<times> string) result" where
  "generate_daily_content w c d0 =
     (let d = (case d0 of None \<Rightarrow> date_today w | Some x \<Rightarrow> x);
          branch_name = branch_name_for_date (date_today w) (Some d);
          filename = digest_filename_for_date (date_today w) (Some d)
      in and_then (lift (os_path_join_opt (fork_path c) (news_dir c)))
           (\<lambda>news. and_then (fs_call (ensure_dir (fs_fault w) (Path_of news)))
              (\<lambda>_. and_then
                 (on_error
                    (and_then
                       (fs_call (write_text_file (fs_fault w)
                                   (Path_of (os_path_join news filename))
                                   (build_content (random_draw w) d)))
                       (\<lambda>_. logm INFO (''Generated content at '' @ os_path_join news filename)))
                    (\<lambda>e. and_then (logm ERROR (''Failed to write digest file: '' @ exn_text e))
                            (\<lambda>_. raise e)))
                 (\<lambda>_. and_then
                    (lift (os_path_join_opt (fork_path c) (Some ''branch_name.txt'')))
                    (\<lambda>branch_file_path. and_then
                       (on_error
                          (and_then
                             (fs_call (write_text_file (fs_fault w) (Path_of branch_file_path)
                                         branch_name))
                             (\<lambda>_. logm DEBUG (''Wrote branch_name.txt with '' @ branch_name)))
                          (\<lambda>e. logm ERROR (''Could not persist branch_name.txt: '' @ exn_text e)))
                       (\<lambda>_. ret (branch_name, os_path_join news filename)))))))"

section \<open>main.py\<close>

definition main_try :: "world \<Rightarrow> config \<Rightarrow> bot_state \<Rightarrow> unit result" where
  "main_try w c =
     and_then (git_manager_init w c)
       (\<lambda>_. and_then (sync_with_upstream w c)
          (\<lambda>_. and_then (generate_daily_content w c None)
             (\<lambda>(branch_name, file_path). and_then (commit_and_push w branch_name file_path None)
                (\<lambda>_. and_then (logm INFO (''Content branch created and pushed: '' @ branch_name))
                   (\<lambda>_. and_then
                      (if enable_log_branch c then push_logs_to_branch w c else ret ())
                      (\<lambda>_. logm INFO ''Workflow finished successfully.''))))))"

text \<open>
  The process: the exit status and the final state. \<^verbatim>\<open>sys.exit(1)\<close> in the handler
  gives status 1; a run that reaches the end of \<^verbatim>\<open>main\<close> gives status 0. The state
  \<open>s\<close> is the one that \<^verbatim>\<open>setup_logger()\<close> leaves.
\<close>

definition main :: "world \<Rightarrow> environ \<Rightarrow> bot_state \<Rightarrow> nat \<times> bot_state" where
  "main w env s =
     (case and_then (logm INFO ''Starting daily contributor workflow.'')
             (\<lambda>_. main_try w (Config env)) s of
        (Inl e, s') \<Rightarrow> (1, snd (logm ERROR (''Fatal error during workflow: '' @ exn_text e) s'))
      | (Inr u, s') \<Rightarrow> (0, s'))"

section \<open>Example inputs\<close>

text \<open>
  An environment in which nothing fails, a fork with an \<^verbatim>\<open>origin\<close> remote and one
  branch, and two configurations: one complete, one without the upstream owner.
\<close>

definition quiet_world :: world where
  "quiet_world =
     \<lparr>git_fault = (\<lambda>op s. None),
      fetch_result = (\<lambda>r s. other_refs s),
      pull_result = head_commit,
      commit_result = (\<lambda>s. Suc (head_commit s)),
      fs_fault = (\<lambda>a f. None),
      relpath = (\<lambda>p start. Inr (drop (Suc (length start)) p)),
      working_tree_dir = ''/repo'',
      getcwd = ''/repo'',
      date_today = \<lparr>year = 2025, month = 10, day = 7\<rparr>,
      random_draw = 0,
      utcnow = ''2025-10-07T06:00:00''\<rparr>"

definition failing_on :: "git_op \<Rightarrow> exn \<Rightarrow> world" where
  "failing_on op e = quiet_world\<lparr>git_fault := (\<lambda>g s. if g = op then Some e else None)\<rparr>"

definition fork_repo :: bot_state where
  "fork_repo =
     \<lparr>remotes = [(''origin'', ''https://github.com/bot/fork.git'')],
      heads = [(''master'', 1)],
      other_refs = [],
      active_branch = Some ''master'',
      head_commit = 1,
      staged = [],
      commits = [],
      pushed = [],
      files = Map.empty([''/'', ''repo''] \<mapsto> Dir),
      logged = [],
      ops = []\<rparr>"


definition no_owner_env :: environ where
  "no_owner_env =
     Map.empty(''REPO_NAME_ALT'' \<mapsto> ''news'',
       ''FORK_PATH'' \<mapsto> ''/repo'', ''REMOTE_UPSTREAM'' \<mapsto> ''upstream'',
       ''NEWS_DIR'' \<mapsto> ''news'', ''LOG_BRANCH'' \<mapsto> ''logs'')"

definition fs_failing_on :: "fs_action \<Rightarrow> exn \<Rightarrow> world" where
  "fs_failing_on a e = quiet_world\<lparr>fs_fault := (\<lambda>x f. if x = a then Some e else None)\<rparr>"



definition fork_without_origin :: bot_state where
  "fork_without_origin = fork_repo\<lparr>remotes := []\<rparr>"

section \<open>Facts about the date code\<close>











section \<open>Facts about the configuration\<close>




section \<open>Facts about the digest content\<close>








lemma long_date_example:
  "long_date \<lparr>year = 2025, month = 10, day = 7\<rparr> = ''Tuesday, October 07, 2025''"
proof -
  have "weekday \<lparr>year = 2025, month = 10, day = 7\<rparr> = 1"
    by (simp add: weekday_def toordinal_def days_before_year_def days_before_month_def
        is_leap_def)
  then show ?thesis
    by (simp add: long_date_def day_names_def month_names_def digit_char_def)
qed


section \<open>Facts about the atomic write\<close>

lemma fs_apply_frame:
  assumes "fs_apply a f = Inr f'" "\<not> touches a q"
  shows "node_at f' q = node_at f q"
proof (cases a)
  case (Mkdir d)
  with assms show ?thesis
    by (auto simp: node_at_def split: option.splits node.splits if_splits)
next
  case (OpenW p)
  with assms show ?thesis
    by (auto simp: node_at_def split: option.splits node.splits if_splits)
next
  case (Write p c)
  with assms show ?thesis
    by (auto simp: node_at_def split: option.splits node.splits if_splits)
next
  case (Replace x y)
  with assms show ?thesis
    by (auto simp: node_at_def split: option.splits node.splits if_splits)
next
  case (Raise e)
  with assms show ?thesis by simp
qed

lemma run_fs_frame:
  assumes "\<forall>a \<in> set as. \<not> touches a q"
  shows "node_at (snd (run_fs fault as f)) q = node_at f q"
  using assms
proof (induction as arbitrary: f)
  case Nil
  then show ?case by simp
next
  case (Cons a as)
  show ?case
  proof (cases "fault a f")
    case (Some e)
    then show ?thesis by simp
  next
    case None
    show ?thesis
    proof (cases "fs_apply a f")
      case (Inl e)
      with None show ?thesis by simp
    next
      case (Inr f')
      have "node_at f' q = node_at f q"
        using fs_apply_frame [OF Inr] Cons.prems by simp
      moreover have "node_at (snd (run_fs fault as f')) q = node_at f' q"
        using Cons.IH Cons.prems by simp
      ultimately show ?thesis using None Inr by simp
    qed
  qed
qed

lemma run_fs_append:
  "run_fs fault (xs @ ys) f =
     (case run_fs fault xs f of
        (Some e, f') \<Rightarrow> (Some e, f')
      | (None, f') \<Rightarrow> run_fs fault ys f')"
  by (induction xs arbitrary: f) (auto split: option.splits sum.splits)

lemma run_fs_writes:
  assumes "run_fs fault (map (Write t) cs) f = (None, f')" "node_at f t = Some (File s)"
  shows "node_at f' t = Some (File (s @ cs))"
  using assms
proof (induction cs arbitrary: f s)
  case Nil
  then show ?case by simp
next
  case (Cons c cs)
  from Cons.prems(2) have nr: "\<not> is_root t" "f t = Some (File s)"
    by (auto simp: node_at_def split: if_splits)
  from Cons.prems(1) nr have r: "run_fs fault (map (Write t) cs) (f(t \<mapsto> File (s @ [c]))) = (None, f')"
    using Cons.prems(2) by (auto split: option.splits)
  have "node_at (f(t \<mapsto> File (s @ [c]))) t = Some (File (s @ [c]))"
    using nr by (simp add: node_at_def)
  from Cons.IH [OF r this] show ?case by simp
qed

lemma suffix_of_name: "take (length (name p) - length (suffix_of p)) (name p) @ suffix_of p = name p"
  by (auto simp: suffix_of_def split: option.splits)

lemma name_last: "name p \<noteq> [] \<Longrightarrow> \<not> is_root p \<and> p = butlast p @ [name p]"
  by (auto simp: name_def is_root_def split: if_splits)

lemma with_suffix_tmp:
  assumes "with_suffix p (suffix_of p @ ''.tmp'') = Inr t"
  shows "t = butlast p @ [name p @ ''.tmp'']" "\<not> is_root p" "t \<noteq> p" "\<not> is_root t"
proof -
  from assms have n: "name p \<noteq> []"
    by (auto simp: with_suffix_def split: if_splits)
  from assms n have "t = butlast p @
      [if suffix_of p = [] then name p @ suffix_of p @ ''.tmp''
       else take (length (name p) - length (suffix_of p)) (name p) @ suffix_of p @ ''.tmp'']"
    by (auto simp: with_suffix_def Let_def split: if_splits)
  moreover have "take (length (name p) - length (suffix_of p)) (name p) @ suffix_of p @ ''.tmp''
      = name p @ ''.tmp''"
    using suffix_of_name [of p] by (metis append_assoc)
  ultimately show t: "t = butlast p @ [name p @ ''.tmp'']" by auto
  show "\<not> is_root p" using name_last [OF n] by simp
  have "butlast p @ [name p @ ''.tmp''] \<noteq> butlast p @ [name p]" by simp
  then show "t \<noteq> p" using t name_last [OF n] by metis
  show "\<not> is_root t" unfolding t is_root_def by auto
qed

lemma mkdirs_not_touch:
  assumes "\<not> is_root p"
  shows "\<forall>a \<in> set (ensure_dir_actions (parent p)). \<not> touches a p"
proof
  fix a assume "a \<in> set (ensure_dir_actions (parent p))"
  then obtain k where a: "a = Mkdir (take k (butlast p))"
    using assms by (auto simp: ensure_dir_actions_def parent_def)
  have "p \<noteq> []" using assms by (simp add: is_root_def)
  then have "0 < length p" by simp
  moreover have "length (take k (butlast p)) \<le> length p - 1" by simp
  ultimately have l: "length (take k (butlast p)) < length p" by linarith
  have "take k (butlast p) \<noteq> p"
  proof
    assume "take k (butlast p) = p"
    then have "length (take k (butlast p)) = length p" by (rule arg_cong)
    with l show False by simp
  qed
  then show "\<not> touches a p" using a by simp
qed

lemma prefix_not_touch:
  assumes "with_suffix p (suffix_of p @ ''.tmp'') = Inr t"
  shows "\<forall>a \<in> set (ensure_dir_actions (parent p) @ OpenW t # map (Write t) content).
           \<not> touches a p"
  using mkdirs_not_touch [OF with_suffix_tmp(2) [OF assms]] with_suffix_tmp(3) [OF assms]
  by auto

lemma prefix_writes_tmp:
  assumes w: "with_suffix p (suffix_of p @ ''.tmp'') = Inr t"
    and r: "run_fs fault (ensure_dir_actions (parent p) @ OpenW t # map (Write t) content) f
              = (None, f1)"
  shows "node_at f1 t = Some (File content)"
proof -
  obtain r0 f0 where m: "run_fs fault (ensure_dir_actions (parent p)) f = (r0, f0)"
    by (cases "run_fs fault (ensure_dir_actions (parent p)) f")
  from r m have r0: "r0 = None" and o: "run_fs fault (OpenW t # map (Write t) content) f0 = (None, f1)"
    by (auto simp: run_fs_append split: option.splits)
  have nt: "\<not> is_root t" by (rule with_suffix_tmp(4) [OF w])
  from o obtain f2 where a: "fs_apply (OpenW t) f0 = Inr f2"
    and ws: "run_fs fault (map (Write t) content) f2 = (None, f1)"
    by (auto split: option.splits sum.splits)
  from a have "f2 = f0(t \<mapsto> File [])"
    by (auto split: option.splits node.splits)
  then have "node_at f2 t = Some (File [])" using nt by (simp add: node_at_def)
  from run_fs_writes [OF ws this] show ?thesis by simp
qed

lemma run_fs_take_frame:
  assumes "\<forall>a \<in> set as. \<not> touches a q"
  shows "node_at (snd (run_fs fault (take n as) f)) q = node_at f q"
proof (rule run_fs_frame)
  show "\<forall>a \<in> set (take n as). \<not> touches a q"
    using assms by (meson in_set_takeD)
qed

lemma write_interrupted:
  "node_at (snd (write_text_file_interrupted fault n p content f)) p = node_at f p \<or>
   (node_at (snd (write_text_file_interrupted fault n p content f)) p = Some (File content) \<and>
    fst (write_text_file_interrupted fault n p content f) = None \<and>
    length (write_text_file_actions p content) \<le> n)"
proof (cases "is_root p")
  case True
  then show ?thesis by (simp add: node_at_def)
next
  case nr: False
  show ?thesis
  proof (cases "with_suffix p (suffix_of p @ ''.tmp'')")
    case (Inl e)
    have "\<forall>a \<in> set (write_text_file_actions p content). \<not> touches a p"
      using mkdirs_not_touch [OF nr] Inl by (auto simp: write_text_file_actions_def)
    from run_fs_take_frame [OF this] show ?thesis
      by (simp add: write_text_file_interrupted_def)
  next
    case (Inr t)
    define pre where "pre = ensure_dir_actions (parent p) @ OpenW t # map (Write t) content"
    have acts: "write_text_file_actions p content = pre @ [Replace t p]"
      using Inr by (simp add: write_text_file_actions_def pre_def)
    have pre_nt: "\<forall>a \<in> set pre. \<not> touches a p"
      unfolding pre_def by (rule prefix_not_touch [OF Inr])
    show ?thesis
    proof (cases "n \<le> length pre")
      case True
      then have "take n (write_text_file_actions p content) = take n pre"
        by (simp add: acts)
      then show ?thesis
        using run_fs_take_frame [OF pre_nt] by (simp add: write_text_file_interrupted_def)
    next
      case False
      then have full: "take n (write_text_file_actions p content) = pre @ [Replace t p]"
        and len: "length (write_text_file_actions p content) \<le> n"
        by (simp_all add: acts)
      obtain r1 f1 where p1: "run_fs fault pre f = (r1, f1)" by (cases "run_fs fault pre f")
      have same: "node_at f1 p = node_at f p"
        using run_fs_frame [OF pre_nt, of fault f] p1 by simp
      show ?thesis
      proof (cases r1)
        case (Some e)
        then show ?thesis
          using p1 same by (simp add: write_text_file_interrupted_def full run_fs_append)
      next
        case None
        have tmp: "node_at f1 t = Some (File content)"
          using prefix_writes_tmp [OF Inr] p1 None by (simp add: pre_def)
        have tp: "t \<noteq> p" by (rule with_suffix_tmp(3) [OF Inr])
        show ?thesis
        proof (cases "fault (Replace t p) f1")
          case (Some e)
          then show ?thesis
            using p1 None same by (simp add: write_text_file_interrupted_def full run_fs_append)
        next
          case nf: None
          show ?thesis
          proof (cases "node_at f1 p = Some Dir")
            case True
            then show ?thesis
              using p1 None nf same tmp tp
              by (simp add: write_text_file_interrupted_def full run_fs_append)
          next
            case False
            then have "fs_apply (Replace t p) f1 = Inr ((f1(p \<mapsto> File content))(t := None))"
              using tmp tp by (auto split: option.splits node.splits)
            then show ?thesis
              using p1 None nf nr tp len
              by (simp add: write_text_file_interrupted_def full run_fs_append node_at_def)
          qed
        qed
      qed
    qed
  qed
qed

lemma write_interrupted_all:
  "write_text_file_interrupted fault (length (write_text_file_actions p content)) p content f
     = write_text_file fault p content f"
  by (simp add: write_text_file_interrupted_def write_text_file_def)

lemma run_fs_raise: "fst (run_fs fault (xs @ [Raise e]) f) \<noteq> None"
  by (induction xs arbitrary: f) (auto split: option.splits sum.splits)

lemma write_complete:
  assumes "fst (write_text_file fault p content f) = None"
  shows "node_at (snd (write_text_file fault p content f)) p = Some (File content)"
proof (cases "with_suffix p (suffix_of p @ ''.tmp'')")
  case (Inl e)
  have "write_text_file_actions p content = ensure_dir_actions (parent p) @ [Raise e]"
    using Inl by (simp add: write_text_file_actions_def)
  then have "fst (write_text_file fault p content f) \<noteq> None"
    using run_fs_raise [of fault "ensure_dir_actions (parent p)" e f]
    by (simp add: write_text_file_def)
  with assms show ?thesis by simp
next
  case (Inr t)
  define pre where "pre = ensure_dir_actions (parent p) @ OpenW t # map (Write t) content"
  have acts: "write_text_file_actions p content = pre @ [Replace t p]"
    using Inr by (simp add: write_text_file_actions_def pre_def)
  obtain r1 f1 where p1: "run_fs fault pre f = (r1, f1)" by (cases "run_fs fault pre f")
  from assms have r1: "r1 = None"
    using p1 by (auto simp: write_text_file_def acts run_fs_append split: option.splits)
  have tmp: "node_at f1 t = Some (File content)"
    using prefix_writes_tmp [OF Inr] p1 r1 by (simp add: pre_def)
  have tp: "t \<noteq> p" by (rule with_suffix_tmp(3) [OF Inr])
  have nr: "\<not> is_root p" by (rule with_suffix_tmp(2) [OF Inr])
  from assms p1 r1 tmp tp nr show ?thesis
    by (auto simp: write_text_file_def acts run_fs_append node_at_def
        split: option.splits sum.splits node.splits if_splits)
qed

lemma write_order:
  assumes w: "with_suffix p (suffix_of p @ ''.tmp'') = Inr t"
    and r: "fst (run_fs fault (butlast (write_text_file_actions p content)) f) = None"
  shows "last (write_text_file_actions p content) = Replace t p \<and> t \<noteq> p \<and>
         node_at (snd (run_fs fault (butlast (write_text_file_actions p content)) f)) t
           = Some (File content) \<and>
         node_at (snd (run_fs fault (butlast (write_text_file_actions p content)) f)) p
           = node_at f p"
proof -
  define pre where "pre = ensure_dir_actions (parent p) @ OpenW t # map (Write t) content"
  have acts: "write_text_file_actions p content = pre @ [Replace t p]"
    using w by (simp add: write_text_file_actions_def pre_def)
  then have bl: "butlast (write_text_file_actions p content) = pre"
    and la: "last (write_text_file_actions p content) = Replace t p" by simp_all
  obtain f1 where p1: "run_fs fault pre f = (None, f1)"
    using r unfolding bl by (cases "run_fs fault pre f") auto
  have "node_at f1 t = Some (File content)"
    using prefix_writes_tmp [OF w] p1 by (simp add: pre_def)
  moreover have "node_at f1 p = node_at f p"
    using run_fs_frame [OF prefix_not_touch [OF w], of fault content f] p1 by (simp add: pre_def)
  ultimately show ?thesis
    using la with_suffix_tmp(3) [OF w] p1 by (simp add: bl)
qed

text \<open>
  C5. \<^verbatim>\<open>write_text_file\<close> is atomic. However many steps of a write have run when it is
  interrupted, and whatever step the environment makes fail, the target path holds what it
  held before (nothing, or the complete prior content), or else the write has finished and
  the target holds the complete new content. A write that returns normally leaves the
  complete content at the target. When every step before the last has run, the temporary
  file, a different path, holds the complete content and the target is still untouched:
  the last step is the rename.
\<close>

theorem write_text_file_atomic:
  "(node_at (snd (write_text_file_interrupted fault n p content f)) p = node_at f p \<or>
    (node_at (snd (write_text_file_interrupted fault n p content f)) p = Some (File content) \<and>
     fst (write_text_file_interrupted fault n p content f) = None \<and>
     length (write_text_file_actions p content) \<le> n)) \<and>
   (fst (write_text_file fault p content f) = None \<longrightarrow>
      node_at (snd (write_text_file fault p content f)) p = Some (File content)) \<and>
   (with_suffix p (suffix_of p @ ''.tmp'') = Inr t \<and>
    fst (run_fs fault (butlast (write_text_file_actions p content)) f) = None \<longrightarrow>
      last (write_text_file_actions p content) = Replace t p \<and> t \<noteq> p \<and>
      node_at (snd (run_fs fault (butlast (write_text_file_actions p content)) f)) t
        = Some (File content) \<and>
      node_at (snd (run_fs fault (butlast (write_text_file_actions p content)) f)) p
        = node_at f p)"
  using write_interrupted [of fault n p content f] write_complete [of fault p content f]
    write_order [of p t fault content f]
  by blast

theorem write_text_file_atomic_witness:
  "fst (write_text_file (\<lambda>a f. None) [''repo'', ''news'', ''d.md''] ''hi''
         (Map.empty([''repo''] \<mapsto> Dir, [''repo'', ''news'', ''d.md''] \<mapsto> File ''old''))) = None \<and>
   node_at (snd (write_text_file (\<lambda>a f. None) [''repo'', ''news'', ''d.md''] ''hi''
         (Map.empty([''repo''] \<mapsto> Dir, [''repo'', ''news'', ''d.md''] \<mapsto> File ''old''))))
     [''repo'', ''news'', ''d.md''] = Some (File ''hi'') \<and>
   with_suffix [''repo'', ''news'', ''d.md''] (suffix_of [''repo'', ''news'', ''d.md''] @ ''.tmp'')
     = Inr [''repo'', ''news'', ''d.md.tmp''] \<and>
   fst (run_fs (\<lambda>a f. None) (butlast (write_text_file_actions [''repo'', ''news'', ''d.md''] ''hi''))
         (Map.empty([''repo''] \<mapsto> Dir, [''repo'', ''news'', ''d.md''] \<mapsto> File ''old''))) = None \<and>
   node_at (snd (run_fs (\<lambda>a f. None)
         (butlast (write_text_file_actions [''repo'', ''news'', ''d.md''] ''hi''))
         (Map.empty([''repo''] \<mapsto> Dir, [''repo'', ''news'', ''d.md''] \<mapsto> File ''old''))))
     [''repo'', ''news'', ''d.md.tmp''] = Some (File ''hi'') \<and>
   node_at (snd (run_fs (\<lambda>a f. None)
         (butlast (write_text_file_actions [''repo'', ''news'', ''d.md''] ''hi''))
         (Map.empty([''repo''] \<mapsto> Dir, [''repo'', ''news'', ''d.md''] \<mapsto> File ''old''))))
     [''repo'', ''news'', ''d.md''] = Some (File ''old'')"
proof -
  let ?F = "Map.empty([''repo''] \<mapsto> Dir, [''repo'', ''news'', ''d.md''] \<mapsto> File ''old'')"
  let ?p = "[''repo'', ''news'', ''d.md'']"
  have h1: "fst (write_text_file (\<lambda>a f. None) ?p ''hi'' ?F) = None"
    by code_simp
  have h2: "with_suffix ?p (suffix_of ?p @ ''.tmp'') = Inr [''repo'', ''news'', ''d.md.tmp'']"
    by code_simp
  have h3: "fst (run_fs (\<lambda>a f. None) (butlast (write_text_file_actions ?p ''hi'')) ?F) = None"
    by code_simp
  have h4: "node_at ?F ?p = Some (File ''old'')"
    by code_simp
  note t = write_text_file_atomic [of "\<lambda>a f. None" 0 ?p "''hi''" ?F "[''repo'', ''news'', ''d.md.tmp'']"]
  from t h1 h2 h3 h4 show ?thesis by simp
qed

section \<open>Facts about the git commands\<close>

lemma count_list_distinct: "distinct xs \<Longrightarrow> x \<in> set xs \<Longrightarrow> count_list xs x = 1"
  by (induction xs) (auto simp: count_notin)

lemma git_ops: "ops (snd (git w op s)) = ops s @ [op]"
proof (cases op)
  case (CheckoutNew b start)
  then show ?thesis
    by (auto simp: git_def Let_def split: option.splits sum.splits if_splits)
qed (auto simp: git_def Let_def advance_head_def split: option.splits sum.splits if_splits)

lemma git_Checkout_heads: "heads (snd (git w (Checkout b) s)) = heads s"
  by (auto simp: git_def Let_def split: option.splits sum.splits)

lemma git_Checkout_ok:
  assumes "git w (Checkout b) s = (Inr (), s')"
  shows "active_branch s' = Some b" "heads s' = heads s" "map_of (heads s) b = Some (head_commit s')"
    "staged s' = staged s" "commits s' = commits s" "pushed s' = pushed s"
    "files s' = files s" "remotes s' = remotes s" "logged s' = logged s"
  using assms by (auto simp: git_def Let_def split: option.splits sum.splits)

lemma git_CreateHead_ok:
  assumes "git w (CreateHead (Some b)) s = (Inr (), s')" "b \<notin> set (map fst (heads s))"
  shows "heads s' = heads s @ [(b, head_commit s)]" "active_branch s' = active_branch s"
    "head_commit s' = head_commit s" "logged s' = logged s"
proof -
  have "map_of (heads s) b = None"
    using assms(2) by (simp add: map_of_eq_None_iff)
  then show "heads s' = heads s @ [(b, head_commit s)]" "active_branch s' = active_branch s"
    "head_commit s' = head_commit s" "logged s' = logged s"
    using assms(1) by (auto simp: git_def Let_def split: option.splits sum.splits)
qed

lemma and_then_Inr:
  assumes "and_then m k s = (Inr y, s')"
  obtains x s1 where "m s = (Inr x, s1)" "k x s1 = (Inr y, s')"
  using assms by (auto simp: and_then_def split: prod.splits sum.splits)

lemma logm_Inr: "logm lvl msg s = (Inr (), s') \<longleftrightarrow> s' = s\<lparr>logged := logged s @ [(lvl, msg)]\<rparr>"
  by (auto simp: logm_def)

lemma checkout_or_create_ok:
  assumes d: "distinct (map fst (heads s))"
    and c: "checkout_or_create_branch w (Some X) s = (Inr (), s1)"
  shows "active_branch s1 = Some X" "distinct (map fst (heads s1))"
    "X \<in> set (map fst (heads s1))"
    "heads s1 = (if X \<in> set (map fst (heads s)) then heads s else heads s @ [(X, head_commit s)])"
proof -
  have "active_branch s1 = Some X \<and> distinct (map fst (heads s1)) \<and>
        X \<in> set (map fst (heads s1)) \<and>
        heads s1 = (if X \<in> set (map fst (heads s)) then heads s else heads s @ [(X, head_commit s)])"
  proof (cases "X \<in> set (map fst (heads s))")
    case True
    with c have "and_then (git w (Checkout X))
        (\<lambda>_. logm DEBUG (''Checked out existing branch '' @ X)) s = (Inr (), s1)"
      by (simp add: checkout_or_create_branch_def in_heads_def)
    then obtain s2 where g: "git w (Checkout X) s = (Inr (), s2)"
      and l: "logm DEBUG (''Checked out existing branch '' @ X) s2 = (Inr (), s1)"
      by (elim and_then_Inr) auto
    from l have "s1 = s2\<lparr>logged := logged s2 @ [(DEBUG, ''Checked out existing branch '' @ X)]\<rparr>"
      by (simp add: logm_Inr)
    with git_Checkout_ok [OF g] True d show ?thesis by simp
  next
    case False
    with c have "and_then (git w (CreateHead (Some X)))
        (\<lambda>_. and_then (git w (Checkout X))
           (\<lambda>_. logm DEBUG (''Created and checked out new branch '' @ X))) s = (Inr (), s1)"
      by (simp add: checkout_or_create_branch_def in_heads_def)
    then obtain s2 s3 where h: "git w (CreateHead (Some X)) s = (Inr (), s2)"
      and g: "git w (Checkout X) s2 = (Inr (), s3)"
      and l: "logm DEBUG (''Created and checked out new branch '' @ X) s3 = (Inr (), s1)"
      by (elim and_then_Inr) auto
    from l have "s1 = s3\<lparr>logged := logged s3 @ [(DEBUG, ''Created and checked out new branch '' @ X)]\<rparr>"
      by (simp add: logm_Inr)
    with git_Checkout_ok [OF g] git_CreateHead_ok [OF h False] False d show ?thesis by simp
  qed
  then show "active_branch s1 = Some X" "distinct (map fst (heads s1))"
    "X \<in> set (map fst (heads s1))"
    "heads s1 = (if X \<in> set (map fst (heads s)) then heads s else heads s @ [(X, head_commit s)])"
    by blast+
qed

lemma checkout_existing:
  assumes "X \<in> set (map fst (heads s))"
  shows "ops (snd (checkout_or_create_branch w (Some X) s)) = ops s @ [Checkout X]"
    "heads (snd (checkout_or_create_branch w (Some X) s)) = heads s"
    "fst (checkout_or_create_branch w (Some X) s) = Inr () \<Longrightarrow>
       active_branch (snd (checkout_or_create_branch w (Some X) s)) = Some X \<and>
       logged (snd (checkout_or_create_branch w (Some X) s))
         = logged s @ [(DEBUG, ''Checked out existing branch '' @ X)]"
proof -
  have e: "checkout_or_create_branch w (Some X) s =
      and_then (git w (Checkout X)) (\<lambda>_. logm DEBUG (''Checked out existing branch '' @ X)) s"
    using assms by (simp add: checkout_or_create_branch_def in_heads_def)
  obtain r s2 where g: "git w (Checkout X) s = (r, s2)" by (cases "git w (Checkout X) s")
  have o: "ops s2 = ops s @ [Checkout X]" using git_ops [of w "Checkout X" s] g by simp
  have h: "heads s2 = heads s" using git_Checkout_heads [of w X s] g by simp
  show "ops (snd (checkout_or_create_branch w (Some X) s)) = ops s @ [Checkout X]"
    unfolding e using g o by (cases r) (simp_all add: and_then_def logm_def)
  show "heads (snd (checkout_or_create_branch w (Some X) s)) = heads s"
    unfolding e using g h by (cases r) (simp_all add: and_then_def logm_def)
  show "active_branch (snd (checkout_or_create_branch w (Some X) s)) = Some X \<and>
       logged (snd (checkout_or_create_branch w (Some X) s))
         = logged s @ [(DEBUG, ''Checked out existing branch '' @ X)]"
    if "fst (checkout_or_create_branch w (Some X) s) = Inr ()"
  proof -
    from that g have r: "r = Inr ()" unfolding e by (cases r) (simp_all add: and_then_def)
    from git_Checkout_ok [OF g [unfolded r]] show ?thesis
      unfolding e using g r by (simp add: and_then_def logm_def)
  qed
qed

text \<open>
  C6. Checkout-or-create is consistent. In a repository whose branch names are distinct
  (git keeps them so), after a first call for X has returned, exactly one local branch is
  named X and it is checked out. A second call for X then attempts one git command, the
  checkout of X, and creates nothing: the branches stay as the first call left them, and
  when the second call returns, X is checked out and the branch is reported as existing.
\<close>

theorem checkout_or_create_twice:
  assumes "distinct (map fst (heads s))"
    and "checkout_or_create_branch w (Some X) s = (Inr (), s1)"
  shows "count_list (map fst (heads s1)) X = 1 \<and> active_branch s1 = Some X \<and>
         ops (snd (checkout_or_create_branch w (Some X) s1)) = ops s1 @ [Checkout X] \<and>
         heads (snd (checkout_or_create_branch w (Some X) s1)) = heads s1 \<and>
         (fst (checkout_or_create_branch w (Some X) s1) = Inr () \<longrightarrow>
            active_branch (snd (checkout_or_create_branch w (Some X) s1)) = Some X \<and>
            logged (snd (checkout_or_create_branch w (Some X) s1))
              = logged s1 @ [(DEBUG, ''Checked out existing branch '' @ X)])"
proof -
  note k = checkout_or_create_ok [OF assms]
  have "count_list (map fst (heads s1)) X = 1"
    by (rule count_list_distinct [OF k(2) k(3)])
  then show ?thesis
    using k(1) checkout_existing [OF k(3), of w] by blast
qed

lemma result_collapse: "fst r = Inr () \<Longrightarrow> r = (Inr (), snd r)"
  by (cases r) simp

text \<open>
  C6 at a concrete input: on the example fork, which has no branch \<^verbatim>\<open>feature/x\<close>, the
  first call creates and checks out the branch and the second changes no branch.
\<close>

theorem checkout_or_create_twice_witness:
  "distinct (map fst (heads fork_repo)) \<and>
   fst (checkout_or_create_branch quiet_world (Some ''feature/x'') fork_repo) = Inr () \<and>
   count_list (map fst (heads (snd (checkout_or_create_branch quiet_world (Some ''feature/x'')
      fork_repo)))) ''feature/x'' = 1 \<and>
   active_branch (snd (checkout_or_create_branch quiet_world (Some ''feature/x'') fork_repo))
     = Some ''feature/x'' \<and>
   heads (snd (checkout_or_create_branch quiet_world (Some ''feature/x'')
      (snd (checkout_or_create_branch quiet_world (Some ''feature/x'') fork_repo))))
     = heads (snd (checkout_or_create_branch quiet_world (Some ''feature/x'') fork_repo))"
proof -
  have h1: "distinct (map fst (heads fork_repo))"
    by (simp add: fork_repo_def)
  have h2: "fst (checkout_or_create_branch quiet_world (Some ''feature/x'') fork_repo) = Inr ()"
    by code_simp
  note t = checkout_or_create_twice [OF h1 result_collapse [OF h2]]
  from h1 h2 t show ?thesis by blast
qed

section \<open>Facts about the synchronisation\<close>







lemma sync_swallows_git_errors:
  assumes "\<forall>e. fst (sync_try w c s) = Inl e \<longrightarrow> is_git_command_error e"
  shows "fst (sync_with_upstream w c s) = Inr ()"
proof (cases "sync_try w c s")
  case (Pair r s')
  show ?thesis
  proof (cases r)
    case (Inl e)
    with Pair assms have "is_git_command_error e" by simp
    with Pair Inl show ?thesis
      by (simp add: sync_with_upstream_def on_git_error_def logm_def)
  next
    case (Inr u)
    with Pair show ?thesis by (simp add: sync_with_upstream_def on_git_error_def)
  qed
qed

lemma sync_passes_other_errors:
  assumes "fst (sync_try w c s) = Inl e" "\<not> is_git_command_error e"
  shows "fst (sync_with_upstream w c s) = Inl e"
  using assms by (cases "sync_try w c s") (simp add: sync_with_upstream_def on_git_error_def)

text \<open>
  C1. The synchronisation catches \<^verbatim>\<open>GitCommandError\<close> only. With REPO_OWNER_ALT unset
  the upstream URL is None; on a fork without the upstream remote the creation of the
  remote raises TypeError, which leaves \<^verbatim>\<open>sync_with_upstream\<close> and ends the run with
  exit status 1, in an environment where no git command fails.
\<close>

theorem sync_raises_without_upstream_url:
  "repo_url_alt (Config no_owner_env) = None \<and>
   get_remote (remote_upstream (Config no_owner_env)) fork_repo = None \<and>
   (\<forall>op st. git_fault quiet_world op st = None) \<and>
   fst (sync_with_upstream quiet_world (Config no_owner_env) fork_repo)
     = Inl (OtherException ''TypeError'') \<and>
   fst (main quiet_world no_owner_env fork_repo) = 1"
proof -
  have c: "repo_url_alt (Config no_owner_env) = None"
    "remote_upstream (Config no_owner_env) = Some ''upstream''"
    "fork_path (Config no_owner_env) = Some ''/repo''"
    by (simp_all add: Config_def no_owner_env_def build_repo_url_def)
  have r: "get_remote (Some ''upstream'') fork_repo = None"
    by (simp add: get_remote_def fork_repo_def)
  have nf: "\<forall>op st. git_fault quiet_world op st = None"
    by (simp add: quiet_world_def)
  have t: "sync_try quiet_world (Config no_owner_env) s
      = (Inl (OtherException ''TypeError''),
         s\<lparr>ops := ops s @ [CreateRemote (Some ''upstream'') None]\<rparr>)"
    if "get_remote (Some ''upstream'') s = None" for s
    using that nf
    by (simp add: sync_try_def sync_ensure_upstream_def and_then_def git_def Let_def c)
  have s: "sync_with_upstream quiet_world (Config no_owner_env) s
      = (Inl (OtherException ''TypeError''),
         s\<lparr>ops := ops s @ [CreateRemote (Some ''upstream'') None]\<rparr>)"
    if "get_remote (Some ''upstream'') s = None" for s
    by (simp add: sync_with_upstream_def on_git_error_def t [OF that])
  have m: "fst (main quiet_world no_owner_env fork_repo) = 1"
    using nf r
    by (simp add: main_def main_try_def git_manager_init_def on_error_def and_then_def
        logm_def git_def Let_def s get_remote_def)
  show ?thesis using c r nf s [OF r] m by simp
qed

section \<open>Facts about the log branch\<close>







section \<open>Facts about publishing and the exit status\<close>

lemma and_then_Inl: "fst (m s) = Inl e \<Longrightarrow> fst (and_then m k s) = Inl e"
  by (cases "m s") (auto simp: and_then_def)

lemma and_then_step: "m s = (Inr x, s1) \<Longrightarrow> and_then m k s = k x s1"
  by (simp add: and_then_def)

lemma result_collapse_val: "fst r = Inr x \<Longrightarrow> r = (Inr x, snd r)"
  by (cases r) simp

lemma reraise_fst:
  "fst (on_git_error m (\<lambda>e. and_then (logm lvl (msg e)) (\<lambda>_. raise e)) s) = fst (m s)"
  by (cases "m s")
     (auto simp: on_git_error_def and_then_def logm_def raise_def split: sum.splits)

lemma commit_and_push_fst:
  "fst (commit_and_push w b f m s) = fst (publish_try w b f (message_or_default f m) s)"
  unfolding commit_and_push_def by (rule reraise_fst)

lemma repo_remote_cases:
  "repo_remote n s = (if n \<in> set (map fst (remotes s)) then (Inr n, s)
                      else (Inl (OtherException ''ValueError''), s))"
  by (simp add: repo_remote_def)

lemma main_exit:
  "fst (main w env s) =
     (case fst (main_try w (Config env)
                  (s\<lparr>logged := logged s @ [(INFO, ''Starting daily contributor workflow.'')]\<rparr>)) of
        Inl e \<Rightarrow> 1 | Inr u \<Rightarrow> 0)"
  by (auto simp: main_def and_then_def logm_def split: prod.splits sum.splits)

lemma main_try_publish:
  assumes "git_manager_init w c s = (Inr (), sa)" "sync_with_upstream w c sa = (Inr (), sb)"
    "generate_daily_content w c None sb = (Inr (b, f), sc)"
    "fst (commit_and_push w b f None sc) = Inl e"
  shows "fst (main_try w c s) = Inl e"
  unfolding main_try_def
  by (simp add: and_then_step [of "git_manager_init w c" s "()" sa, OF assms(1)]
      and_then_step [of "sync_with_upstream w c" sa "()" sb, OF assms(2)]
      and_then_step [of "generate_daily_content w c None" sb "(b, f)" sc, OF assms(3)]
      and_then_Inl [of "commit_and_push w b f None" sc e, OF assms(4)])

lemma main_try_generate:
  assumes "git_manager_init w c s = (Inr (), sa)" "sync_with_upstream w c sa = (Inr (), sb)"
    "fst (generate_daily_content w c None sb) = Inl e"
  shows "fst (main_try w c s) = Inl e"
  unfolding main_try_def
  by (simp add: and_then_step [of "git_manager_init w c" s "()" sa, OF assms(1)]
      and_then_step [of "sync_with_upstream w c" sa "()" sb, OF assms(2)]
      and_then_Inl [of "generate_daily_content w c None" sb e, OF assms(3)])

text \<open>
  C2. Every failing publish step makes \<^verbatim>\<open>commit_and_push\<close> raise the step's exception
  to its caller: a failure of the branch step, of staging, of the commit, a missing
  \<^verbatim>\<open>origin\<close> remote (ValueError), and a failure of the push. When \<^verbatim>\<open>main\<close> has reached
  \<^verbatim>\<open>commit_and_push\<close> and it raises, the process exits with status 1.
\<close>

theorem publish_failure_propagates:
  "(fst (checkout_or_create_branch w (Some b) s) = Inl e \<longrightarrow>
      fst (commit_and_push w b f m s) = Inl e) \<and>
   (checkout_or_create_branch w (Some b) s = (Inr (), s1) \<and>
    relpath w f (working_tree_dir w) = Inr rel \<and>
    fst (git w (IndexAdd rel) s1) = Inl e \<longrightarrow>
      fst (commit_and_push w b f m s) = Inl e) \<and>
   (checkout_or_create_branch w (Some b) s = (Inr (), s1) \<and>
    relpath w f (working_tree_dir w) = Inr rel \<and>
    git w (IndexAdd rel) s1 = (Inr (), s2) \<and>
    fst (git w (IndexCommit (message_or_default f m)) s2) = Inl e \<longrightarrow>
      fst (commit_and_push w b f m s) = Inl e) \<and>
   (checkout_or_create_branch w (Some b) s = (Inr (), s1) \<and>
    relpath w f (working_tree_dir w) = Inr rel \<and>
    git w (IndexAdd rel) s1 = (Inr (), s2) \<and>
    git w (IndexCommit (message_or_default f m)) s2 = (Inr (), s3) \<and>
    ''origin'' \<notin> set (map fst (remotes s3)) \<longrightarrow>
      fst (commit_and_push w b f m s) = Inl (OtherException ''ValueError'')) \<and>
   (checkout_or_create_branch w (Some b) s = (Inr (), s1) \<and>
    relpath w f (working_tree_dir w) = Inr rel \<and>
    git w (IndexAdd rel) s1 = (Inr (), s2) \<and>
    git w (IndexCommit (message_or_default f m)) s2 = (Inr (), s3) \<and>
    ''origin'' \<in> set (map fst (remotes s3)) \<and>
    fst (git w (Push ''origin'' (Some b)) s3) = Inl e \<longrightarrow>
      fst (commit_and_push w b f m s) = Inl e) \<and>
   (git_manager_init w (Config env)
      (s0\<lparr>logged := logged s0 @ [(INFO, ''Starting daily contributor workflow.'')]\<rparr>)
      = (Inr (), sa) \<and>
    sync_with_upstream w (Config env) sa = (Inr (), sb) \<and>
    generate_daily_content w (Config env) None sb = (Inr (b, f), sc) \<and>
    fst (commit_and_push w b f None sc) = Inl e \<longrightarrow>
      fst (main w env s0) = 1)"
proof (intro conjI impI)
  assume "fst (checkout_or_create_branch w (Some b) s) = Inl e"
  then show "fst (commit_and_push w b f m s) = Inl e"
    unfolding commit_and_push_fst publish_try_def by (rule and_then_Inl)
next
  assume a: "checkout_or_create_branch w (Some b) s = (Inr (), s1) \<and>
    relpath w f (working_tree_dir w) = Inr rel \<and> fst (git w (IndexAdd rel) s1) = Inl e"
  then show "fst (commit_and_push w b f m s) = Inl e"
    unfolding commit_and_push_fst publish_try_def
    by (simp add: and_then_step [of _ s "()" s1] and_then_step [of _ s1 rel s1] lift_def
        and_then_Inl)
next
  assume a: "checkout_or_create_branch w (Some b) s = (Inr (), s1) \<and>
    relpath w f (working_tree_dir w) = Inr rel \<and>
    git w (IndexAdd rel) s1 = (Inr (), s2) \<and>
    fst (git w (IndexCommit (message_or_default f m)) s2) = Inl e"
  then show "fst (commit_and_push w b f m s) = Inl e"
    unfolding commit_and_push_fst publish_try_def
    by (simp add: and_then_step [of _ s "()" s1] and_then_step [of _ s1 rel s1]
        and_then_step [of _ s1 "()" s2] lift_def and_then_Inl)
next
  assume a: "checkout_or_create_branch w (Some b) s = (Inr (), s1) \<and>
    relpath w f (working_tree_dir w) = Inr rel \<and>
    git w (IndexAdd rel) s1 = (Inr (), s2) \<and>
    git w (IndexCommit (message_or_default f m)) s2 = (Inr (), s3) \<and>
    ''origin'' \<notin> set (map fst (remotes s3))"
  then have "fst (repo_remote ''origin'' s3) = Inl (OtherException ''ValueError'')"
    by (simp add: repo_remote_cases)
  with a show "fst (commit_and_push w b f m s) = Inl (OtherException ''ValueError'')"
    unfolding commit_and_push_fst publish_try_def
    by (simp add: and_then_step [of _ s "()" s1] and_then_step [of _ s1 rel s1]
        and_then_step [of _ s1 "()" s2] and_then_step [of _ s2 "()" s3] lift_def and_then_Inl)
next
  assume a: "checkout_or_create_branch w (Some b) s = (Inr (), s1) \<and>
    relpath w f (working_tree_dir w) = Inr rel \<and>
    git w (IndexAdd rel) s1 = (Inr (), s2) \<and>
    git w (IndexCommit (message_or_default f m)) s2 = (Inr (), s3) \<and>
    ''origin'' \<in> set (map fst (remotes s3)) \<and>
    fst (git w (Push ''origin'' (Some b)) s3) = Inl e"
  then have "repo_remote ''origin'' s3 = (Inr ''origin'', s3)"
    by (simp add: repo_remote_cases)
  with a show "fst (commit_and_push w b f m s) = Inl e"
    unfolding commit_and_push_fst publish_try_def
    by (simp add: and_then_step [of _ s "()" s1] and_then_step [of _ s1 rel s1]
        and_then_step [of _ s1 "()" s2] and_then_step [of _ s2 "()" s3]
        and_then_step [of _ s3 "''origin''" s3] lift_def and_then_Inl)
next
  assume a: "git_manager_init w (Config env)
      (s0\<lparr>logged := logged s0 @ [(INFO, ''Starting daily contributor workflow.'')]\<rparr>)
      = (Inr (), sa) \<and>
    sync_with_upstream w (Config env) sa = (Inr (), sb) \<and>
    generate_daily_content w (Config env) None sb = (Inr (b, f), sc) \<and>
    fst (commit_and_push w b f None sc) = Inl e"
  then have "fst (main_try w (Config env)
      (s0\<lparr>logged := logged s0 @ [(INFO, ''Starting daily contributor workflow.'')]\<rparr>)) = Inl e"
    using main_try_publish by blast
  then show "fst (main w env s0) = 1" by (simp add: main_exit)
qed

section \<open>Facts about writing the digest\<close>

lemma join_opt_Inr:
  "os_path_join_opt a b = Inr p \<Longrightarrow> \<exists>x y. a = Some x \<and> b = Some y \<and> p = os_path_join x y"
  by (auto simp: os_path_join_opt_def split: option.splits)

lemma generate_digest_fails:
  assumes "os_path_join_opt (fork_path c) (news_dir c) = Inr news"
    and "fst (ensure_dir (fs_fault w) (Path_of news) (files s)) = None"
    and "fst (write_text_file (fs_fault w)
           (Path_of (os_path_join news (digest_filename_for_date (date_today w)
              (Some (case d0 of None \<Rightarrow> date_today w | Some x \<Rightarrow> x)))))
           (build_content (random_draw w) (case d0 of None \<Rightarrow> date_today w | Some x \<Rightarrow> x))
           (snd (ensure_dir (fs_fault w) (Path_of news) (files s)))) = Some e"
  shows "fst (generate_daily_content w c d0 s) = Inl e"
  using assms
  by (auto simp: generate_daily_content_def Let_def and_then_def lift_def fs_call_def
      on_error_def logm_def raise_def split: prod.splits option.splits)

lemma generate_digest_ok:
  assumes "os_path_join_opt (fork_path c) (news_dir c) = Inr news"
    and "fst (ensure_dir (fs_fault w) (Path_of news) (files s)) = None"
    and "fst (write_text_file (fs_fault w)
           (Path_of (os_path_join news (digest_filename_for_date (date_today w)
              (Some (case d0 of None \<Rightarrow> date_today w | Some x \<Rightarrow> x)))))
           (build_content (random_draw w) (case d0 of None \<Rightarrow> date_today w | Some x \<Rightarrow> x))
           (snd (ensure_dir (fs_fault w) (Path_of news) (files s)))) = None"
  shows "fst (generate_daily_content w c d0 s)
         = Inr (branch_name_for_date (date_today w)
                  (Some (case d0 of None \<Rightarrow> date_today w | Some x \<Rightarrow> x)),
                os_path_join news (digest_filename_for_date (date_today w)
                  (Some (case d0 of None \<Rightarrow> date_today w | Some x \<Rightarrow> x))))"
proof -
  obtain x y where "fork_path c = Some x" "news_dir c = Some y"
    using join_opt_Inr [OF assms(1)] by blast
  then have j: "os_path_join_opt (fork_path c) (Some ''branch_name.txt'')
      = Inr (os_path_join x ''branch_name.txt'')"
    by (simp add: os_path_join_opt_def)
  show ?thesis
    using assms j
    by (auto simp: generate_daily_content_def Let_def and_then_def lift_def fs_call_def
        on_error_def logm_def raise_def ret_def split: prod.splits option.splits)
qed

lemma generate_sidecar_logged:
  assumes "os_path_join_opt (fork_path c) (news_dir c) = Inr news"
    and "fst (ensure_dir (fs_fault w) (Path_of news) (files s)) = None"
    and "fst (write_text_file (fs_fault w)
           (Path_of (os_path_join news (digest_filename_for_date (date_today w)
              (Some (case d0 of None \<Rightarrow> date_today w | Some x \<Rightarrow> x)))))
           (build_content (random_draw w) (case d0 of None \<Rightarrow> date_today w | Some x \<Rightarrow> x))
           (snd (ensure_dir (fs_fault w) (Path_of news) (files s)))) = None"
    and "os_path_join_opt (fork_path c) (Some ''branch_name.txt'') = Inr side"
    and "fst (write_text_file (fs_fault w) (Path_of side)
           (branch_name_for_date (date_today w)
              (Some (case d0 of None \<Rightarrow> date_today w | Some x \<Rightarrow> x)))
           (snd (write_text_file (fs_fault w)
              (Path_of (os_path_join news (digest_filename_for_date (date_today w)
                 (Some (case d0 of None \<Rightarrow> date_today w | Some x \<Rightarrow> x)))))
              (build_content (random_draw w) (case d0 of None \<Rightarrow> date_today w | Some x \<Rightarrow> x))
              (snd (ensure_dir (fs_fault w) (Path_of news) (files s)))))) = Some e"
  shows "last (logged (snd (generate_daily_content w c d0 s)))
         = (ERROR, ''Could not persist branch_name.txt: '' @ exn_text e)"
  using assms
  by (auto simp: generate_daily_content_def Let_def and_then_def lift_def fs_call_def
      on_error_def logm_def raise_def ret_def split: prod.splits option.splits)

text \<open>
  C4. In \<^verbatim>\<open>generate_daily_content\<close>, for every date, an exception while the digest
  file is written leaves the function, and then \<^verbatim>\<open>main\<close> exits with status 1; an
  exception while \<^verbatim>\<open>branch_name.txt\<close> is written is logged and the function returns
  the branch name and the path of the digest file.
\<close>

theorem digest_fatal_sidecar_logged:
  "(os_path_join_opt (fork_path c) (news_dir c) = Inr news \<and>
    fst (ensure_dir (fs_fault w) (Path_of news) (files s)) = None \<and>
    fst (write_text_file (fs_fault w)
           (Path_of (os_path_join news (digest_filename_for_date (date_today w)
              (Some (case d0 of None \<Rightarrow> date_today w | Some x \<Rightarrow> x)))))
           (build_content (random_draw w) (case d0 of None \<Rightarrow> date_today w | Some x \<Rightarrow> x))
           (snd (ensure_dir (fs_fault w) (Path_of news) (files s)))) = Some e \<longrightarrow>
      fst (generate_daily_content w c d0 s) = Inl e) \<and>
   (os_path_join_opt (fork_path c) (news_dir c) = Inr news \<and>
    fst (ensure_dir (fs_fault w) (Path_of news) (files s)) = None \<and>
    fst (write_text_file (fs_fault w)
           (Path_of (os_path_join news (digest_filename_for_date (date_today w)
              (Some (case d0 of None \<Rightarrow> date_today w | Some x \<Rightarrow> x)))))
           (build_content (random_draw w) (case d0 of None \<Rightarrow> date_today w | Some x \<Rightarrow> x))
           (snd (ensure_dir (fs_fault w) (Path_of news) (files s)))) = None \<and>
    os_path_join_opt (fork_path c) (Some ''branch_name.txt'') = Inr side \<and>
    fst (write_text_file (fs_fault w) (Path_of side)
           (branch_name_for_date (date_today w)
              (Some (case d0 of None \<Rightarrow> date_today w | Some x \<Rightarrow> x)))
           (snd (write_text_file (fs_fault w)
              (Path_of (os_path_join news (digest_filename_for_date (date_today w)
                 (Some (case d0 of None \<Rightarrow> date_today w | Some x \<Rightarrow> x)))))
              (build_content (random_draw w) (case d0 of None \<Rightarrow> date_today w | Some x \<Rightarrow> x))
              (snd (ensure_dir (fs_fault w) (Path_of news) (files s)))))) = Some e \<longrightarrow>
      fst (generate_daily_content w c d0 s)
        = Inr (branch_name_for_date (date_today w)
                 (Some (case d0 of None \<Rightarrow> date_today w | Some x \<Rightarrow> x)),
               os_path_join news (digest_filename_for_date (date_today w)
                 (Some (case d0 of None \<Rightarrow> date_today w | Some x \<Rightarrow> x)))) \<and>
      last (logged (snd (generate_daily_content w c d0 s)))
        = (ERROR, ''Could not persist branch_name.txt: '' @ exn_text e)) \<and>
   (git_manager_init w (Config env)
      (s0\<lparr>logged := logged s0 @ [(INFO, ''Starting daily contributor workflow.'')]\<rparr>)
      = (Inr (), sa) \<and>
    sync_with_upstream w (Config env) sa = (Inr (), sb) \<and>
    fst (generate_daily_content w (Config env) None sb) = Inl e \<longrightarrow>
      fst (main w env s0) = 1)"
proof (intro conjI impI)
  assume "os_path_join_opt (fork_path c) (news_dir c) = Inr news \<and>
    fst (ensure_dir (fs_fault w) (Path_of news) (files s)) = None \<and>
    fst (write_text_file (fs_fault w)
           (Path_of (os_path_join news (digest_filename_for_date (date_today w)
              (Some (case d0 of None \<Rightarrow> date_today w | Some x \<Rightarrow> x)))))
           (build_content (random_draw w) (case d0 of None \<Rightarrow> date_today w | Some x \<Rightarrow> x))
           (snd (ensure_dir (fs_fault w) (Path_of news) (files s)))) = Some e"
  then show "fst (generate_daily_content w c d0 s) = Inl e"
    using generate_digest_fails by blast
next
  assume a: "os_path_join_opt (fork_path c) (news_dir c) = Inr news \<and>
    fst (ensure_dir (fs_fault w) (Path_of news) (files s)) = None \<and>
    fst (write_text_file (fs_fault w)
           (Path_of (os_path_join news (digest_filename_for_date (date_today w)
              (Some (case d0 of None \<Rightarrow> date_today w | Some x \<Rightarrow> x)))))
           (build_content (random_draw w) (case d0 of None \<Rightarrow> date_today w | Some x \<Rightarrow> x))
           (snd (ensure_dir (fs_fault w) (Path_of news) (files s)))) = None \<and>
    os_path_join_opt (fork_path c) (Some ''branch_name.txt'') = Inr side \<and>
    fst (write_text_file (fs_fault w) (Path_of side)
           (branch_name_for_date (date_today w)
              (Some (case d0 of None \<Rightarrow> date_today w | Some x \<Rightarrow> x)))
           (snd (write_text_file (fs_fault w)
              (Path_of (os_path_join news (digest_filename_for_date (date_today w)
                 (Some (case d0 of None \<Rightarrow> date_today w | Some x \<Rightarrow> x)))))
              (build_content (random_draw w) (case d0 of None \<Rightarrow> date_today w | Some x \<Rightarrow> x))
              (snd (ensure_dir (fs_fault w) (Path_of news) (files s)))))) = Some e"
  then show "fst (generate_daily_content w c d0 s)
        = Inr (branch_name_for_date (date_today w)
                 (Some (case d0 of None \<Rightarrow> date_today w | Some x \<Rightarrow> x)),
               os_path_join news (digest_filename_for_date (date_today w)
                 (Some (case d0 of None \<Rightarrow> date_today w | Some x \<Rightarrow> x))))"
    using generate_digest_ok by blast
  from a show "last (logged (snd (generate_daily_content w c d0 s)))
        = (ERROR, ''Could not persist branch_name.txt: '' @ exn_text e)"
    using generate_sidecar_logged by blast
next
  assume "git_manager_init w (Config env)
      (s0\<lparr>logged := logged s0 @ [(INFO, ''Starting daily contributor workflow.'')]\<rparr>)
      = (Inr (), sa) \<and>
    sync_with_upstream w (Config env) sa = (Inr (), sb) \<and>
    fst (generate_daily_content w (Config env) None sb) = Inl e"
  then have "fst (main_try w (Config env)
      (s0\<lparr>logged := logged s0 @ [(INFO, ''Starting daily contributor workflow.'')]\<rparr>)) = Inl e"
    using main_try_generate by blast
  then show "fst (main w env s0) = 1" by (simp add: main_exit)
qed

end
